theory Spec2Isabelle
  imports Main "HOL-Library.Sublist"
begin

section \<open>Validation results\<close>

text \<open>
  \<^verbatim>\<open>src/classes.ts\<close> is present in two versions. The later one imports
  \<^verbatim>\<open>MaybeError\<close> from \<^verbatim>\<open>./utils\<close> and uses \<^verbatim>\<open>MaybeError.foldConjoin\<close>,
  \<^verbatim>\<open>MaybeError.fail\<close>, \<^verbatim>\<open>conjoin\<close> and \<^verbatim>\<open>isError\<close>; the earlier one imports
  \<^verbatim>\<open>Left\<close> and \<^verbatim>\<open>Right\<close>. Neither \<^verbatim>\<open>utils.ts\<close> nor \<^verbatim>\<open>validators.ts\<close> is
  among the sources, so the result types are modelled here.
\<close>

text \<open>
  Modelled from the spec: the type \<^verbatim>\<open>MaybeError\<close> of \<^verbatim>\<open>utils.ts\<close>, which is the
  \<^verbatim>\<open>ValidationResult\<close> of the later version. The spec describes a sum type with
  \<^verbatim>\<open>Success\<close> (no payload) and \<^verbatim>\<open>Failure\<close> carrying an ordered sequence of
  diagnostic strings.
\<close>

datatype MaybeError = Success | Failure "string list"

type_synonym ValidationResult = MaybeError

text \<open>
  Modelled from the spec: \<^verbatim>\<open>isError\<close> of \<^verbatim>\<open>MaybeError\<close>, the predicate used for
  branching on a failure.
\<close>

fun isError :: "MaybeError \<Rightarrow> bool" where
  "isError Success = False"
| "isError (Failure ms) = True"

text \<open>The message sequence of a result; a success carries none.\<close>

fun messages :: "MaybeError \<Rightarrow> string list" where
  "messages Success = []"
| "messages (Failure ms) = ms"

text \<open>
  Modelled from the spec: \<^verbatim>\<open>MaybeError.fail\<close>, which constructs a failure from one
  message.
\<close>

definition fail :: "string \<Rightarrow> MaybeError" where
  "fail msg = Failure [msg]"

text \<open>
  Modelled from the spec: \<^verbatim>\<open>conjoin\<close> of \<^verbatim>\<open>MaybeError\<close>. The spec gives the four
  cases: success with success is success, a success with a failure is that
  failure, and two failures give a failure with the messages of the first followed
  by the messages of the second.
\<close>

fun conjoin :: "MaybeError \<Rightarrow> MaybeError \<Rightarrow> MaybeError" where
  "conjoin Success Success = Success"
| "conjoin Success (Failure bs) = Failure bs"
| "conjoin (Failure as) Success = Failure as"
| "conjoin (Failure as) (Failure bs) = Failure (as @ bs)"

text \<open>
  Modelled from the spec: \<^verbatim>\<open>MaybeError.foldConjoin\<close>, which folds a list of results
  with \<^verbatim>\<open>conjoin\<close>, starting from \<^verbatim>\<open>Success\<close>.
\<close>

definition foldConjoin :: "MaybeError list \<Rightarrow> MaybeError" where
  "foldConjoin results = foldl conjoin Success results"

text \<open>
  The earlier version's \<^verbatim>\<open>ValidationResult\<close> is built from \<^verbatim>\<open>Left\<close> and
  \<^verbatim>\<open>Right\<close> of \<^verbatim>\<open>utils.ts\<close>. The code constructs \<^verbatim>\<open>new Left(string)\<close>, tests
  \<^verbatim>\<open>result instanceof Left\<close> and reads \<^verbatim>\<open>left.value\<close>; what a \<^verbatim>\<open>Right\<close> carries is
  not used, so it is a type parameter.
\<close>

datatype ('l, 'r) Either = Left (left_value: 'l) | Right 'r

type_synonym 'r ValidationResult_v1 = "(string, 'r) Either"

fun isLeft :: "('l, 'r) Either \<Rightarrow> bool" where
  "isLeft (Left v) = True"
| "isLeft (Right v) = False"

text \<open>\<^verbatim>\<open>Array.prototype.join\<close> on an array of strings.\<close>

fun join :: "string list \<Rightarrow> string \<Rightarrow> string" where
  "join [] sep = []"
| "join [x] sep = x"
| "join (x # y # ys) sep = x @ sep @ join (y # ys) sep"

section \<open>Validators and candidate types\<close>

text \<open>
  The candidate type (\<^verbatim>\<open>InstanceConstructor\<close> of \<^verbatim>\<open>./instances\<close>) is a JS class.
  \<^verbatim>\<open>Class.validate\<close> reads only its \<^verbatim>\<open>name\<close>; whatever else it offers (the sample
  generator, the methods the laws call) is the extension part of the record.
\<close>

record InstanceConstructor =
  constructor_name :: string

text \<open>
  A \<^verbatim>\<open>Validator\<close> offers one method, \<^verbatim>\<open>check\<close>. Checking a law draws samples from
  the candidate type and runs user code, so \<^verbatim>\<open>check\<close> is a state transformer over
  an arbitrary state \<open>'s\<close> of the surrounding program: it returns its result and
  the state it leaves. Failures are results, not exceptions.
\<close>

datatype ('i, 's) Validator = Validator (check: "'i \<Rightarrow> 's \<Rightarrow> ValidationResult \<times> 's")

datatype ('i, 's, 'r) Validator_v1 =
  Validator_v1 (check_v1: "'i \<Rightarrow> 's \<Rightarrow> 'r ValidationResult_v1 \<times> 's")

fun check_each :: "('i, 's) Validator list \<Rightarrow> 'i \<Rightarrow> 's \<Rightarrow> ValidationResult list \<times> 's" where
  "check_each [] inst s = ([], s)"
| "check_each (v # vs) inst s =
     (let (r, s1) = check v inst s;
          (rs, s2) = check_each vs inst s1
      in (r # rs, s2))"

text \<open>
  Modelled from the spec: \<^verbatim>\<open>all\<close> of \<^verbatim>\<open>validators.ts\<close>. It runs \<^verbatim>\<open>check\<close> on each
  child in sequence against the same candidate type and folds the results with
  \<^verbatim>\<open>conjoin\<close>.
\<close>

definition all :: "('i, 's) Validator list \<Rightarrow> ('i, 's) Validator" where
  "all validators =
     Validator (\<lambda>inst s. let (rs, s1) = check_each validators inst s in (foldConjoin rs, s1))"

section \<open>Classes, later version\<close>

text \<open>
  A class holds its prerequisites (\<^verbatim>\<open>parents\<close>), its own laws, its name and its
  id. The fields are read-only and the prerequisites exist before the class that
  extends them, so a class is a finite tree; a prerequisite shared by two classes
  appears under each, as \<^verbatim>\<open>validate\<close> visits it once for each.
\<close>

datatype ('m, 's) Class =
  Class (parents: "('m, 's) Class list")
        (laws: "('m InstanceConstructor_scheme, 's) Validator")
        (name: string)
        (id_c: nat)

text \<open>
  \<^verbatim>\<open>ClassOptions\<close>: each of the three properties may be absent.
\<close>

datatype ('m, 's) ClassOptions =
  ClassOptions (name_opt: "string option")
               (extends_opt: "('m, 's) Class list option")
               (laws_opt: "('m InstanceConstructor_scheme, 's) Validator option")

text \<open>
  \<^verbatim>\<open>idCounter++\<close> on a JS number. The counter starts at 0 and is only ever
  incremented, so it is a non-negative integer; a JS number holds every integer up
  to \<open>2 ^ 53\<close> exactly, and \<open>2 ^ 53 + 1\<close> rounds back to \<open>2 ^ 53\<close>.
\<close>

definition number_succ :: "nat \<Rightarrow> nat" where
  "number_succ n = (if n < 2 ^ 53 then n + 1 else n)"

text \<open>
  The constructor. \<^verbatim>\<open>name || 'Unnamed'\<close> takes the placeholder when the name is
  absent or the empty string. The module variable \<^verbatim>\<open>idCounter\<close> is passed in and
  returned.
\<close>

fun new_Class :: "('m, 's) ClassOptions \<Rightarrow> nat \<Rightarrow> ('m, 's) Class \<times> nat" where
  "new_Class (ClassOptions name_o extends_o laws_o) idCounter =
     (let parents = (case extends_o of None \<Rightarrow> [] | Some ps \<Rightarrow> ps);
          laws = (case laws_o of None \<Rightarrow> all [] | Some l \<Rightarrow> l);
          name = (case name_o of None \<Rightarrow> ''Unnamed''
                  | Some n \<Rightarrow> if n = [] then ''Unnamed'' else n)
      in (Class parents laws name idCounter, number_succ idCounter))"

text \<open>A program that constructs one class after another, from a list of options.\<close>

fun new_Classes :: "('m, 's) ClassOptions list \<Rightarrow> nat \<Rightarrow> ('m, 's) Class list \<times> nat" where
  "new_Classes [] idCounter = ([], idCounter)"
| "new_Classes (options # rest) idCounter =
     (let (c, idCounter1) = new_Class options idCounter;
          (cs, idCounter2) = new_Classes rest idCounter1
      in (c # cs, idCounter2))"

text \<open>
  \<^verbatim>\<open>validate\<close>. \<^verbatim>\<open>this.parents.map((parent) => parent.validate(instance))\<close> calls
  the parents from left to right; \<open>validate_parents\<close> is that \<^verbatim>\<open>map\<close>, threading
  the state.
\<close>

fun validate :: "('m, 's) Class \<Rightarrow> 'm InstanceConstructor_scheme \<Rightarrow> 's \<Rightarrow> ValidationResult \<times> 's"
  and validate_parents ::
    "('m, 's) Class list \<Rightarrow> 'm InstanceConstructor_scheme \<Rightarrow> 's \<Rightarrow> ValidationResult list \<times> 's"
where
  "validate (Class ps l n i) inst s =
     (let (results, s1) = validate_parents ps inst s;
          parentResults = foldConjoin results
      in if isError parentResults
         then (conjoin parentResults
                 (fail (''Class '' @ constructor_name inst
                        @ '' fails the prerequisites to be a '' @ n)), s1)
         else check l inst s1)"
| "validate_parents [] inst s = ([], s)"
| "validate_parents (parent # rest) inst s =
     (let (r, s1) = validate parent inst s;
          (rs, s2) = validate_parents rest inst s1
      in (r # rs, s2))"

section \<open>Classes, earlier version\<close>

datatype ('m, 's, 'r) Class_v1 =
  Class_v1 (parents_v1: "('m, 's, 'r) Class_v1 list")
           (laws_v1: "('m InstanceConstructor_scheme, 's, 'r) Validator_v1")
           (name_v1: string)

datatype ('m, 's, 'r) ClassOptions_v1 =
  ClassOptions_v1 (name_opt_v1: "string option")
                  (extends_opt_v1: "('m, 's, 'r) Class_v1 list option")
                  (laws_opt_v1: "('m InstanceConstructor_scheme, 's, 'r) Validator_v1 option")

text \<open>
  The earlier constructor. Its default for \<^verbatim>\<open>laws\<close> is the earlier version's
  \<^verbatim>\<open>all()\<close>, which is not among the sources and is taken as a parameter.
\<close>

fun new_Class_v1 ::
  "('m InstanceConstructor_scheme, 's, 'r) Validator_v1 \<Rightarrow> ('m, 's, 'r) ClassOptions_v1
     \<Rightarrow> ('m, 's, 'r) Class_v1" where
  "new_Class_v1 all_empty (ClassOptions_v1 name_o extends_o laws_o) =
     (let parents = (case extends_o of None \<Rightarrow> [] | Some ps \<Rightarrow> ps);
          laws = (case laws_o of None \<Rightarrow> all_empty | Some l \<Rightarrow> l);
          name = (case name_o of None \<Rightarrow> ''Unnamed''
                  | Some n \<Rightarrow> if n = [] then ''Unnamed'' else n)
      in Class_v1 parents laws name)"

fun validate_v1 ::
    "('m, 's, 'r) Class_v1 \<Rightarrow> 'm InstanceConstructor_scheme \<Rightarrow> 's \<Rightarrow> 'r ValidationResult_v1 \<times> 's"
  and validate_parents_v1 ::
    "('m, 's, 'r) Class_v1 list \<Rightarrow> 'm InstanceConstructor_scheme \<Rightarrow> 's
       \<Rightarrow> 'r ValidationResult_v1 list \<times> 's"
where
  "validate_v1 (Class_v1 ps l n) inst s =
     (let (results, s1) = validate_parents_v1 ps inst s;
          parentLefts = filter isLeft results
      in if length parentLefts \<noteq> 0
         then (Left (''Class '' @ constructor_name inst
                     @ '' fails the prerequisites to be a '' @ n
                     @ [CHR 0x0A, CHR 0x0A]
                     @ join (map left_value parentLefts) [CHR 0x0A, CHR 0x0A]), s1)
         else check_v1 l inst s1)"
| "validate_parents_v1 [] inst s = ([], s)"
| "validate_parents_v1 (parent # rest) inst s =
     (let (r, s1) = validate_v1 parent inst s;
          (rs, s2) = validate_parents_v1 rest inst s1
      in (r # rs, s2))"

section \<open>Notions used to state the properties\<close>

text \<open>
  The state in which a list of parents leaves the program when each parent's
  \<^verbatim>\<open>validate\<close> is run once, from left to right.
\<close>

definition state_after ::
  "('m, 's) Class list \<Rightarrow> 'm InstanceConstructor_scheme \<Rightarrow> 's \<Rightarrow> 's" where
  "state_after ps inst s = foldl (\<lambda>s1 p. snd (validate p inst s1)) s ps"

definition state_after_v1 ::
  "('m, 's, 'r) Class_v1 list \<Rightarrow> 'm InstanceConstructor_scheme \<Rightarrow> 's \<Rightarrow> 's" where
  "state_after_v1 ps inst s = foldl (\<lambda>s1 p. snd (validate_v1 p inst s1)) s ps"

text \<open>
  The message that \<^verbatim>\<open>validate\<close> builds from the candidate type's name and the
  class's name when the prerequisites fail.
\<close>

definition prerequisites_message :: "string \<Rightarrow> string \<Rightarrow> string" where
  "prerequisites_message candidate class_name =
     ''Class '' @ candidate @ '' fails the prerequisites to be a '' @ class_name"

text \<open>The same class graph with every name replaced.\<close>

fun rename :: "(string \<Rightarrow> string) \<Rightarrow> ('m, 's) Class \<Rightarrow> ('m, 's) Class" where
  "rename f (Class ps l n i) = Class (map (rename f) ps) l (f n) i"

fun rename_v1 :: "(string \<Rightarrow> string) \<Rightarrow> ('m, 's, 'r) Class_v1 \<Rightarrow> ('m, 's, 'r) Class_v1" where
  "rename_v1 f (Class_v1 ps l n) = Class_v1 (map (rename_v1 f) ps) l (f n)"

text \<open>
  Validators for concrete runs: the state is a log, and a validator appends its tag
  to the log each time its \<^verbatim>\<open>check\<close> runs, then returns a fixed result.
\<close>

definition recording :: "string \<Rightarrow> ValidationResult \<Rightarrow> ('i, string list) Validator" where
  "recording tag r = Validator (\<lambda>inst s. (r, s @ [tag]))"

definition recording_v1 ::
  "string \<Rightarrow> unit ValidationResult_v1 \<Rightarrow> ('i, string list, unit) Validator_v1" where
  "recording_v1 tag r = Validator_v1 (\<lambda>inst s. (r, s @ [tag]))"

definition Num :: InstanceConstructor where
  "Num = \<lparr>constructor_name = ''Num''\<rparr>"

section \<open>Properties of the result type\<close>

lemma conjoin_Success_left: "conjoin Success x = x"
  by (cases x) simp_all

lemma conjoin_Success_right: "conjoin x Success = x"
  by (cases x) simp_all

lemma conjoin_assoc: "conjoin (conjoin a b) c = conjoin a (conjoin b c)"
  by (cases a; cases b; cases c) simp_all

lemma isError_conjoin: "isError (conjoin a b) = (isError a \<or> isError b)"
  by (cases a; cases b) simp_all

lemma messages_conjoin: "messages (conjoin a b) = messages a @ messages b"
  by (cases a; cases b) simp_all

lemma foldl_conjoin: "foldl conjoin a rs = conjoin a (foldl conjoin Success rs)"
proof (induction rs arbitrary: a)
  case Nil
  show ?case by (simp add: conjoin_Success_right)
next
  case (Cons r rs)
  have "foldl conjoin a (r # rs) = conjoin (conjoin a r) (foldl conjoin Success rs)"
    using Cons.IH [of "conjoin a r"] by simp
  also have "\<dots> = conjoin a (conjoin r (foldl conjoin Success rs))"
    by (rule conjoin_assoc)
  also have "conjoin r (foldl conjoin Success rs) = foldl conjoin Success (r # rs)"
    using Cons.IH [of r] by (simp add: conjoin_Success_left)
  finally show ?case .
qed

lemma foldConjoin_Nil: "foldConjoin [] = Success"
  by (simp add: foldConjoin_def)

lemma foldConjoin_Cons: "foldConjoin (r # rs) = conjoin r (foldConjoin rs)"
  using foldl_conjoin [of r rs] by (simp add: foldConjoin_def conjoin_Success_left)

lemma isError_foldConjoin: "isError (foldConjoin rs) = list_ex isError rs"
  by (induction rs) (simp_all add: foldConjoin_Nil foldConjoin_Cons isError_conjoin)

lemma messages_foldConjoin: "messages (foldConjoin rs) = concat (map messages rs)"
  by (induction rs) (simp_all add: foldConjoin_Nil foldConjoin_Cons messages_conjoin)

lemma check_all_Nil: "check (all []) inst s = (Success, s)"
  by (simp add: all_def foldConjoin_Nil)

text \<open>
  C6. \<^verbatim>\<open>conjoin\<close> is associative and has \<^verbatim>\<open>Success\<close> as a left and right
  identity, and two failures conjoin to a failure whose messages are those of the
  first followed by those of the second: the results form a monoid.
\<close>

theorem conjoin_monoid:
  "conjoin (conjoin a b) c = conjoin a (conjoin b c)
   \<and> conjoin Success x = x
   \<and> conjoin x Success = x
   \<and> conjoin (Failure as) (Failure bs) = Failure (as @ bs)"
  by (simp add: conjoin_assoc conjoin_Success_left conjoin_Success_right)

section \<open>The constructor\<close>

text \<open>
  C5. With \<^verbatim>\<open>laws\<close> omitted the constructor stores \<^verbatim>\<open>all()\<close>, whose check
  succeeds on every candidate type and leaves the state alone; so a class with no
  prerequisites (\<^verbatim>\<open>extends\<close> omitted or empty) and omitted laws validates every
  candidate type with \<^verbatim>\<open>Success\<close>. In the earlier version the stored laws are
  that version's \<^verbatim>\<open>all()\<close>, and validation of such a class is exactly its check.
\<close>

theorem omitted_laws_succeed:
  "laws (fst (new_Class (ClassOptions name_o extends_o None) idCounter)) = all []
   \<and> check (all []) inst s = (Success, s)
   \<and> validate (fst (new_Class (ClassOptions name_o None None) idCounter)) inst s = (Success, s)
   \<and> validate (fst (new_Class (ClassOptions name_o (Some []) None) idCounter)) inst s = (Success, s)
   \<and> laws_v1 (new_Class_v1 all_empty (ClassOptions_v1 name_o1 extends_o1 None)) = all_empty
   \<and> validate_v1 (new_Class_v1 all_empty (ClassOptions_v1 name_o1 None None)) inst1 s1
       = check_v1 all_empty inst1 s1
   \<and> validate_v1 (new_Class_v1 all_empty (ClassOptions_v1 name_o1 (Some []) None)) inst1 s1
       = check_v1 all_empty inst1 s1"
  by (simp add: check_all_Nil foldConjoin_Nil Let_def)

text \<open>
  C10. A name given as the empty string is replaced by the placeholder, as an
  omitted one is: the stored name of a constructed class is never empty. Both
  versions of the constructor agree.
\<close>

theorem falsy_name_is_Unnamed:
  "name (fst (new_Class (ClassOptions (Some []) extends_o laws_o) idCounter)) = ''Unnamed''
   \<and> name (fst (new_Class options idCounter)) \<noteq> []
   \<and> name_v1 (new_Class_v1 all_empty (ClassOptions_v1 (Some []) extends_o1 laws_o1)) = ''Unnamed''
   \<and> name_v1 (new_Class_v1 all_empty options1) \<noteq> []"
proof -
  have a: "name (fst (new_Class options idCounter)) \<noteq> []"
    by (cases options) (simp add: Let_def split: option.split)
  have b: "name_v1 (new_Class_v1 all_empty options1) \<noteq> []"
    by (cases options1) (simp add: Let_def split: option.split)
  show ?thesis using a b by (simp add: Let_def)
qed

section \<open>Validation of the prerequisites\<close>

lemma conjoin_fail: "isError a \<Longrightarrow> conjoin a (fail m) = Failure (messages a @ [m])"
  by (cases a) (simp_all add: fail_def)

lemma result_cases: "r = (if isError r then Failure (messages r) else Success)"
  by (cases r) simp_all

lemma validate_parents_append:
  "validate_parents (as @ bs) inst s =
     (fst (validate_parents as inst s)
        @ fst (validate_parents bs inst (snd (validate_parents as inst s))),
      snd (validate_parents bs inst (snd (validate_parents as inst s))))"
  by (induction as arbitrary: s) (simp_all add: case_prod_beta Let_def)

lemma snd_validate_parents: "snd (validate_parents ps inst s) = state_after ps inst s"
  unfolding state_after_def
  by (induction ps arbitrary: s) (simp_all add: case_prod_beta Let_def)

lemma fst_validate_parents:
  "fst (validate_parents ps inst s) =
     map (\<lambda>k. fst (validate (ps ! k) inst (state_after (take k ps) inst s))) [0..<length ps]"
proof (induction ps rule: rev_induct)
  case Nil
  show ?case by simp
next
  case (snoc p ps)
  have "map (\<lambda>k. fst (validate ((ps @ [p]) ! k) inst (state_after (take k (ps @ [p])) inst s)))
          [0..<length ps]
      = map (\<lambda>k. fst (validate (ps ! k) inst (state_after (take k ps) inst s))) [0..<length ps]"
    by (rule map_cong) (simp_all add: nth_append)
  then show ?case
    using snoc.IH
    by (simp add: validate_parents_append snd_validate_parents case_prod_beta Let_def)
qed

lemma validate_unfold:
  "validate (Class ps l n i) inst s =
     (if list_ex isError (fst (validate_parents ps inst s))
      then (Failure (concat (map messages (fst (validate_parents ps inst s)))
                     @ [prerequisites_message (constructor_name inst) n]),
            state_after ps inst s)
      else check l inst (state_after ps inst s))"
  by (simp add: case_prod_beta Let_def isError_foldConjoin conjoin_fail messages_foldConjoin
      prerequisites_message_def snd_validate_parents)

lemma validate_parents_v1_append:
  "validate_parents_v1 (as @ bs) inst s =
     (fst (validate_parents_v1 as inst s)
        @ fst (validate_parents_v1 bs inst (snd (validate_parents_v1 as inst s))),
      snd (validate_parents_v1 bs inst (snd (validate_parents_v1 as inst s))))"
  by (induction as arbitrary: s) (simp_all add: case_prod_beta Let_def)

lemma snd_validate_parents_v1: "snd (validate_parents_v1 ps inst s) = state_after_v1 ps inst s"
  unfolding state_after_v1_def
  by (induction ps arbitrary: s) (simp_all add: case_prod_beta Let_def)

lemma fst_validate_parents_v1:
  "fst (validate_parents_v1 ps inst s) =
     map (\<lambda>k. fst (validate_v1 (ps ! k) inst (state_after_v1 (take k ps) inst s)))
       [0..<length ps]"
proof (induction ps rule: rev_induct)
  case Nil
  show ?case by simp
next
  case (snoc p ps)
  have "map (\<lambda>k. fst (validate_v1 ((ps @ [p]) ! k) inst
                     (state_after_v1 (take k (ps @ [p])) inst s))) [0..<length ps]
      = map (\<lambda>k. fst (validate_v1 (ps ! k) inst (state_after_v1 (take k ps) inst s)))
          [0..<length ps]"
    by (rule map_cong) (simp_all add: nth_append)
  then show ?case
    using snoc.IH
    by (simp add: validate_parents_v1_append snd_validate_parents_v1 case_prod_beta Let_def)
qed

lemma filter_isLeft_empty: "(filter isLeft rs = []) = (\<not> list_ex isLeft rs)"
  by (induction rs) simp_all

lemma validate_v1_unfold:
  "validate_v1 (Class_v1 ps l n) inst s =
     (if list_ex isLeft (fst (validate_parents_v1 ps inst s))
      then (Left (prerequisites_message (constructor_name inst) n
                  @ [CHR 0x0A, CHR 0x0A]
                  @ join (map left_value (filter isLeft (fst (validate_parents_v1 ps inst s))))
                      [CHR 0x0A, CHR 0x0A]),
            state_after_v1 ps inst s)
      else check_v1 l inst (state_after_v1 ps inst s))"
  by (simp add: case_prod_beta Let_def filter_isLeft_empty
      prerequisites_message_def snd_validate_parents_v1)

text \<open>
  C4. \<^verbatim>\<open>validate\<close> runs \<^verbatim>\<open>validate\<close> of every prerequisite once, in the declared
  order: the \<open>k\<close>-th result is that of the \<open>k\<close>-th prerequisite, run in the state
  left by the \<open>k\<close> prerequisites before it, and the state after the list is the one
  left by all of them, whether or not an earlier one failed. The results are
  conjoined into one intermediate result, which fails when some prerequisite fails
  and then carries the messages of all of them in order. The earlier version runs
  the prerequisites in the same way and joins the messages of all the failures.
\<close>

theorem prerequisites_validated_in_order:
  "validate_parents ps inst s =
     (map (\<lambda>k. fst (validate (ps ! k) inst (state_after (take k ps) inst s))) [0..<length ps],
      state_after ps inst s)
   \<and> foldConjoin (fst (validate_parents ps inst s)) =
       (if list_ex isError (fst (validate_parents ps inst s))
        then Failure (concat (map messages (fst (validate_parents ps inst s))))
        else Success)
   \<and> validate (Class ps l n i) inst s =
       (if isError (foldConjoin (fst (validate_parents ps inst s)))
        then (Failure (concat (map messages (fst (validate_parents ps inst s)))
                       @ [prerequisites_message (constructor_name inst) n]),
              state_after ps inst s)
        else check l inst (state_after ps inst s))
   \<and> validate_parents_v1 ps1 inst1 s1 =
       (map (\<lambda>k. fst (validate_v1 (ps1 ! k) inst1 (state_after_v1 (take k ps1) inst1 s1)))
          [0..<length ps1],
        state_after_v1 ps1 inst1 s1)
   \<and> validate_v1 (Class_v1 ps1 l1 n1) inst1 s1 =
       (if list_ex isLeft (fst (validate_parents_v1 ps1 inst1 s1))
        then (Left (prerequisites_message (constructor_name inst1) n1
                    @ [CHR 0x0A, CHR 0x0A]
                    @ join (map left_value
                             (filter isLeft (fst (validate_parents_v1 ps1 inst1 s1))))
                        [CHR 0x0A, CHR 0x0A]),
              state_after_v1 ps1 inst1 s1)
        else check_v1 l1 inst1 (state_after_v1 ps1 inst1 s1))"
proof -
  have a: "validate_parents ps inst s =
     (map (\<lambda>k. fst (validate (ps ! k) inst (state_after (take k ps) inst s))) [0..<length ps],
      state_after ps inst s)"
    using fst_validate_parents [of ps inst s] snd_validate_parents [of ps inst s]
    by (simp add: prod_eq_iff)
  have b: "foldConjoin (fst (validate_parents ps inst s)) =
       (if list_ex isError (fst (validate_parents ps inst s))
        then Failure (concat (map messages (fst (validate_parents ps inst s))))
        else Success)"
    using result_cases [of "foldConjoin (fst (validate_parents ps inst s))"]
    by (simp only: isError_foldConjoin messages_foldConjoin)
  have c: "validate (Class ps l n i) inst s =
       (if isError (foldConjoin (fst (validate_parents ps inst s)))
        then (Failure (concat (map messages (fst (validate_parents ps inst s)))
                       @ [prerequisites_message (constructor_name inst) n]),
              state_after ps inst s)
        else check l inst (state_after ps inst s))"
    by (simp only: isError_foldConjoin validate_unfold)
  have d: "validate_parents_v1 ps1 inst1 s1 =
       (map (\<lambda>k. fst (validate_v1 (ps1 ! k) inst1 (state_after_v1 (take k ps1) inst1 s1)))
          [0..<length ps1],
        state_after_v1 ps1 inst1 s1)"
    using fst_validate_parents_v1 [of ps1 inst1 s1] snd_validate_parents_v1 [of ps1 inst1 s1]
    by (simp add: prod_eq_iff)
  show ?thesis
    using a b c d validate_v1_unfold [of ps1 l1 n1 inst1 s1] by blast
qed

text \<open>
  A run of C4: the first and third prerequisite fail, the second succeeds. All
  three are checked, in order, and both failures are reported.
\<close>

theorem prerequisites_validated_in_order_witness:
  "validate
     (Class [Class [] (recording ''Eq laws'' (Failure [''reflexivity''])) ''Eq'' 0,
             Class [] (recording ''Show laws'' Success) ''Show'' 1,
             Class [] (recording ''Ord laws'' (Failure [''transitivity''])) ''Ord'' 2]
        (recording ''Addable laws'' Success) ''Addable'' 3) Num []
   = (Failure [''reflexivity'', ''transitivity'',
               ''Class Num fails the prerequisites to be a Addable''],
      [''Eq laws'', ''Show laws'', ''Ord laws''])"
  using prerequisites_validated_in_order
    [of "[Class [] (recording ''Eq laws'' (Failure [''reflexivity''])) ''Eq'' 0,
          Class [] (recording ''Show laws'' Success) ''Show'' 1,
          Class [] (recording ''Ord laws'' (Failure [''transitivity''])) ''Ord'' 2]" Num "[]"
        "recording ''Addable laws'' Success" "''Addable''" 3 "[]" Num "[]"]
  by (simp add: recording_def foldConjoin_def fail_def Num_def prerequisites_message_def)

section \<open>Failing prerequisites\<close>

lemma sublist_prerequisites_message:
  "sublist candidate (prerequisites_message candidate class_name)
   \<and> sublist class_name (prerequisites_message candidate class_name)"
proof -
  have "prerequisites_message candidate class_name
        = (''Class '' @ candidate @ '' fails the prerequisites to be a '') @ class_name"
    by (simp add: prerequisites_message_def)
  then have "sublist class_name (prerequisites_message candidate class_name)"
    by (simp only: sublist_append_leftI)
  moreover have "sublist candidate (prerequisites_message candidate class_name)"
    by (simp only: prerequisites_message_def sublist_appendI)
  ultimately show ?thesis by simp
qed

lemma sublist_append_right: "sublist xs ys \<Longrightarrow> sublist xs (ys @ zs)"
proof -
  assume "sublist xs ys"
  then obtain ps ss where "ys = ps @ xs @ ss"
    by (auto simp: sublist_def)
  then have "ys @ zs = ps @ xs @ (ss @ zs)"
    by simp
  then show ?thesis
    by (simp only: sublist_appendI)
qed

lemma failing_parent_v2:
  "isError (fst (validate p inst (state_after as inst s)))
   \<Longrightarrow> list_ex isError (fst (validate_parents (as @ p # bs) inst s))"
  by (simp add: validate_parents_append snd_validate_parents case_prod_beta Let_def)

lemma failing_parent_v1:
  "isLeft (fst (validate_v1 p inst (state_after_v1 as inst s)))
   \<Longrightarrow> list_ex isLeft (fst (validate_parents_v1 (as @ p # bs) inst s))"
  by (simp add: validate_parents_v1_append snd_validate_parents_v1 case_prod_beta Let_def)

text \<open>
  C2. If a prerequisite fails when it is validated (in the state left by the
  prerequisites declared before it), the class fails, whatever its own laws would
  return. This holds in both versions.
\<close>

theorem prerequisite_failure_not_masked:
  "(isError (fst (validate p inst (state_after as inst s)))
      \<longrightarrow> isError (fst (validate (Class (as @ p # bs) l n i) inst s)))
   \<and> (isLeft (fst (validate_v1 p1 inst1 (state_after_v1 as1 inst1 s1)))
      \<longrightarrow> isLeft (fst (validate_v1 (Class_v1 (as1 @ p1 # bs1) l1 n1) inst1 s1)))"
proof -
  have a: "isError (fst (validate (Class (as @ p # bs) l n i) inst s))"
    if "isError (fst (validate p inst (state_after as inst s)))"
    using failing_parent_v2 [OF that, of bs]
    by (simp only: validate_unfold if_True fst_conv isError.simps)
  have b: "isLeft (fst (validate_v1 (Class_v1 (as1 @ p1 # bs1) l1 n1) inst1 s1))"
    if "isLeft (fst (validate_v1 p1 inst1 (state_after_v1 as1 inst1 s1)))"
    using failing_parent_v1 [OF that, of bs1]
    by (simp only: validate_v1_unfold if_True fst_conv isLeft.simps)
  show ?thesis using a b by blast
qed

text \<open>
  A run of C2: \<^verbatim>\<open>Eq\<close> fails its law, \<^verbatim>\<open>Addable\<close> extends \<^verbatim>\<open>Eq\<close> and its own laws
  succeed; \<^verbatim>\<open>Addable\<close> fails.
\<close>

theorem prerequisite_failure_not_masked_witness:
  "isError (fst (validate
      (Class [] (recording ''Eq laws'' (Failure [''reflexivity''])) ''Eq'' 0)
      Num (state_after [] Num [])))
   \<and> check (recording ''Addable laws'' Success) Num [''Eq laws'']
       = (Success, [''Eq laws'', ''Addable laws''])
   \<and> isError (fst (validate
      (Class [Class [] (recording ''Eq laws'' (Failure [''reflexivity''])) ''Eq'' 0]
         (recording ''Addable laws'' Success) ''Addable'' 1) Num []))
   \<and> isLeft (fst (validate_v1
      (Class_v1 [] (recording_v1 ''Eq laws'' (Left ''reflexivity'')) ''Eq'')
      Num (state_after_v1 [] Num [])))
   \<and> isLeft (fst (validate_v1
      (Class_v1 [Class_v1 [] (recording_v1 ''Eq laws'' (Left ''reflexivity'')) ''Eq'']
         (recording_v1 ''Addable laws'' (Right ())) ''Addable'') Num []))"
  using prerequisite_failure_not_masked
    [of "Class [] (recording ''Eq laws'' (Failure [''reflexivity''])) ''Eq'' 0" Num "[]" "[]"
        "[]" "recording ''Addable laws'' Success" "''Addable''" 1
        "Class_v1 [] (recording_v1 ''Eq laws'' (Left ''reflexivity'')) ''Eq''" Num "[]" "[]"
        "[]" "recording_v1 ''Addable laws'' (Right ())" "''Addable''"]
  by (simp add: state_after_def state_after_v1_def recording_def recording_v1_def
      foldConjoin_def)

text \<open>
  C1, as stated, fails: when a prerequisite fails, \<^verbatim>\<open>validate\<close> returns before
  \<^verbatim>\<open>this.laws.check(instance)\<close>. Here \<^verbatim>\<open>Eq\<close> fails and the own laws of \<^verbatim>\<open>Addable\<close>
  would fail with \<^verbatim>\<open>commutativity\<close>; the log shows that only the laws of \<^verbatim>\<open>Eq\<close>
  ran, and the result is not the prerequisite result conjoined with the result of
  the own laws.
\<close>

theorem own_laws_not_run_after_failed_prerequisites_counterexample:
  "isError (foldConjoin (fst (validate_parents
       [Class [] (recording ''Eq laws'' (Failure [''reflexivity''])) ''Eq'' 0] Num [])))
   \<and> check (recording ''Addable laws'' (Failure [''commutativity''])) Num [''Eq laws'']
       = (Failure [''commutativity''], [''Eq laws'', ''Addable laws''])
   \<and> validate
        (Class [Class [] (recording ''Eq laws'' (Failure [''reflexivity''])) ''Eq'' 0]
           (recording ''Addable laws'' (Failure [''commutativity''])) ''Addable'' 1) Num []
       = (Failure [''reflexivity'', ''Class Num fails the prerequisites to be a Addable''],
          [''Eq laws''])
   \<and> fst (validate
        (Class [Class [] (recording ''Eq laws'' (Failure [''reflexivity''])) ''Eq'' 0]
           (recording ''Addable laws'' (Failure [''commutativity''])) ''Addable'' 1) Num [])
       \<noteq> conjoin
           (foldConjoin (fst (validate_parents
              [Class [] (recording ''Eq laws'' (Failure [''reflexivity''])) ''Eq'' 0] Num [])))
           (fst (check (recording ''Addable laws'' (Failure [''commutativity''])) Num
              (state_after
                 [Class [] (recording ''Eq laws'' (Failure [''reflexivity''])) ''Eq'' 0]
                 Num [])))"
  by (simp add: recording_def foldConjoin_def fail_def Num_def state_after_def)

text \<open>
  C1, amended. When the conjoined result of the prerequisites is a failure,
  \<^verbatim>\<open>validate\<close> returns it conjoined with the message about the prerequisites, in
  the state the prerequisites left, and the own laws play no part: any other laws
  give the same result and state. When it is a success, \<^verbatim>\<open>validate\<close> runs the own
  laws in the state the prerequisites left and returns exactly their result, which
  is then also the conjunction of the two. The earlier version behaves alike.
\<close>

theorem own_laws_only_after_prerequisites_succeed:
  "(isError (foldConjoin (fst (validate_parents ps inst s))) \<longrightarrow>
      validate (Class ps l n i) inst s
        = (conjoin (foldConjoin (fst (validate_parents ps inst s)))
             (fail (prerequisites_message (constructor_name inst) n)),
           state_after ps inst s)
      \<and> validate (Class ps l n i) inst s = validate (Class ps l' n i) inst s)
   \<and> (\<not> isError (foldConjoin (fst (validate_parents ps inst s))) \<longrightarrow>
      validate (Class ps l n i) inst s = check l inst (state_after ps inst s)
      \<and> fst (validate (Class ps l n i) inst s)
          = conjoin (foldConjoin (fst (validate_parents ps inst s)))
              (fst (check l inst (state_after ps inst s))))
   \<and> (list_ex isLeft (fst (validate_parents_v1 ps1 inst1 s1)) \<longrightarrow>
      validate_v1 (Class_v1 ps1 l1 n1) inst1 s1
        = (Left (prerequisites_message (constructor_name inst1) n1
                 @ [CHR 0x0A, CHR 0x0A]
                 @ join (map left_value
                          (filter isLeft (fst (validate_parents_v1 ps1 inst1 s1))))
                     [CHR 0x0A, CHR 0x0A]),
           state_after_v1 ps1 inst1 s1)
      \<and> validate_v1 (Class_v1 ps1 l1 n1) inst1 s1 = validate_v1 (Class_v1 ps1 l1' n1) inst1 s1)
   \<and> (\<not> list_ex isLeft (fst (validate_parents_v1 ps1 inst1 s1)) \<longrightarrow>
      validate_v1 (Class_v1 ps1 l1 n1) inst1 s1 = check_v1 l1 inst1 (state_after_v1 ps1 inst1 s1))"
proof -
  have a: "validate (Class ps l n i) inst s
        = (conjoin (foldConjoin (fst (validate_parents ps inst s)))
             (fail (prerequisites_message (constructor_name inst) n)),
           state_after ps inst s)
      \<and> validate (Class ps l n i) inst s = validate (Class ps l' n i) inst s"
    if "isError (foldConjoin (fst (validate_parents ps inst s)))"
    using that
    by (simp add: case_prod_beta Let_def prerequisites_message_def snd_validate_parents)
  have b: "validate (Class ps l n i) inst s = check l inst (state_after ps inst s)
      \<and> fst (validate (Class ps l n i) inst s)
          = conjoin (foldConjoin (fst (validate_parents ps inst s)))
              (fst (check l inst (state_after ps inst s)))"
    if "\<not> isError (foldConjoin (fst (validate_parents ps inst s)))"
  proof -
    have "foldConjoin (fst (validate_parents ps inst s)) = Success"
      using that result_cases [of "foldConjoin (fst (validate_parents ps inst s))"] by simp
    then show ?thesis
      by (simp add: case_prod_beta Let_def snd_validate_parents conjoin_Success_left)
  qed
  have c: "validate_v1 (Class_v1 ps1 l1 n1) inst1 s1
        = (Left (prerequisites_message (constructor_name inst1) n1
                 @ [CHR 0x0A, CHR 0x0A]
                 @ join (map left_value
                          (filter isLeft (fst (validate_parents_v1 ps1 inst1 s1))))
                     [CHR 0x0A, CHR 0x0A]),
           state_after_v1 ps1 inst1 s1)
      \<and> validate_v1 (Class_v1 ps1 l1 n1) inst1 s1 = validate_v1 (Class_v1 ps1 l1' n1) inst1 s1"
    if "list_ex isLeft (fst (validate_parents_v1 ps1 inst1 s1))"
    using that by (simp only: validate_v1_unfold if_True simp_thms)
  have d: "validate_v1 (Class_v1 ps1 l1 n1) inst1 s1
             = check_v1 l1 inst1 (state_after_v1 ps1 inst1 s1)"
    if "\<not> list_ex isLeft (fst (validate_parents_v1 ps1 inst1 s1))"
    using that by (simp only: validate_v1_unfold if_False)
  show ?thesis using a b c d by blast
qed

text \<open>
  Runs of the amended C1, with a failing and with a succeeding prerequisite.
\<close>

theorem own_laws_only_after_prerequisites_succeed_witness:
  "isError (foldConjoin (fst (validate_parents
       [Class [] (recording ''Eq laws'' (Failure [''reflexivity''])) ''Eq'' 0] Num [])))
   \<and> validate
        (Class [Class [] (recording ''Eq laws'' (Failure [''reflexivity''])) ''Eq'' 0]
           (recording ''Addable laws'' (Failure [''commutativity''])) ''Addable'' 1) Num []
       = (Failure [''reflexivity'', ''Class Num fails the prerequisites to be a Addable''],
          [''Eq laws''])
   \<and> \<not> isError (foldConjoin (fst (validate_parents
       [Class [] (recording ''Eq laws'' Success) ''Eq'' 0] Num [])))
   \<and> validate
        (Class [Class [] (recording ''Eq laws'' Success) ''Eq'' 0]
           (recording ''Addable laws'' (Failure [''commutativity''])) ''Addable'' 1) Num []
       = (Failure [''commutativity''], [''Eq laws'', ''Addable laws''])
   \<and> list_ex isLeft (fst (validate_parents_v1
       [Class_v1 [] (recording_v1 ''Eq laws'' (Left ''reflexivity'')) ''Eq''] Num []))
   \<and> snd (validate_v1
        (Class_v1 [Class_v1 [] (recording_v1 ''Eq laws'' (Left ''reflexivity'')) ''Eq'']
           (recording_v1 ''Addable laws'' (Left ''commutativity'')) ''Addable'') Num [])
       = [''Eq laws'']
   \<and> \<not> list_ex isLeft (fst (validate_parents_v1
       [Class_v1 [] (recording_v1 ''Eq laws'' (Right ())) ''Eq''] Num []))
   \<and> validate_v1
        (Class_v1 [Class_v1 [] (recording_v1 ''Eq laws'' (Right ())) ''Eq'']
           (recording_v1 ''Addable laws'' (Left ''commutativity'')) ''Addable'') Num []
       = (Left ''commutativity'', [''Eq laws'', ''Addable laws''])"
  using own_laws_only_after_prerequisites_succeed
    [of "[Class [] (recording ''Eq laws'' (Failure [''reflexivity''])) ''Eq'' 0]" Num "[]"
        "recording ''Addable laws'' (Failure [''commutativity''])" "''Addable''" 1
        "recording ''Addable laws'' (Failure [''commutativity''])"
        "[Class_v1 [] (recording_v1 ''Eq laws'' (Left ''reflexivity'')) ''Eq'']" Num "[]"
        "recording_v1 ''Addable laws'' (Left ''commutativity'')" "''Addable''"
        "recording_v1 ''Addable laws'' (Left ''commutativity'')"]
    own_laws_only_after_prerequisites_succeed
    [of "[Class [] (recording ''Eq laws'' Success) ''Eq'' 0]" Num "[]"
        "recording ''Addable laws'' (Failure [''commutativity''])" "''Addable''" 1
        "recording ''Addable laws'' (Failure [''commutativity''])"
        "[Class_v1 [] (recording_v1 ''Eq laws'' (Right ())) ''Eq'']" Num "[]"
        "recording_v1 ''Addable laws'' (Left ''commutativity'')" "''Addable''"
        "recording_v1 ''Addable laws'' (Left ''commutativity'')"]
  by (simp add: recording_def recording_v1_def foldConjoin_def fail_def Num_def
      state_after_def state_after_v1_def prerequisites_message_def)

text \<open>
  C3, as stated, fails: when the prerequisites succeed and the own laws fail,
  \<^verbatim>\<open>validate\<close> returns the result of \<^verbatim>\<open>laws.check\<close> as it is. Here the only
  message is the one of the law, and it contains neither the name of the candidate
  type nor the name of the class.
\<close>

theorem own_law_failure_has_no_context_counterexample:
  "validate (Class [] (recording ''Eq laws'' (Failure [''reflexivity''])) ''Eq'' 0) Num []
     = (Failure [''reflexivity''], [''Eq laws''])
   \<and> \<not> sublist ''Num'' ''reflexivity''
   \<and> \<not> sublist ''Eq'' ''reflexivity''
   \<and> validate_v1 (Class_v1 [] (recording_v1 ''Eq laws'' (Left ''reflexivity'')) ''Eq'') Num []
     = (Left ''reflexivity'', [''Eq laws''])"
  by (simp add: recording_def recording_v1_def foldConjoin_def sublist_Cons_right)

text \<open>
  C3, amended. When the prerequisites fail, the failure carries, after the messages
  of the prerequisites, a message that contains the name of the candidate type and
  the name of the class (in the earlier version the single message of the
  \<^verbatim>\<open>Left\<close> contains both). When the prerequisites succeed, the result is the
  result of the own laws, with no message added.
\<close>

theorem prerequisite_failure_has_context:
  "(isError (foldConjoin (fst (validate_parents ps inst s))) \<longrightarrow>
      fst (validate (Class ps l n i) inst s)
        = Failure (messages (foldConjoin (fst (validate_parents ps inst s)))
                   @ [prerequisites_message (constructor_name inst) n])
      \<and> sublist (constructor_name inst) (prerequisites_message (constructor_name inst) n)
      \<and> sublist n (prerequisites_message (constructor_name inst) n))
   \<and> (\<not> isError (foldConjoin (fst (validate_parents ps inst s))) \<longrightarrow>
      fst (validate (Class ps l n i) inst s) = fst (check l inst (state_after ps inst s)))
   \<and> (list_ex isLeft (fst (validate_parents_v1 ps1 inst1 s1)) \<longrightarrow>
      isLeft (fst (validate_v1 (Class_v1 ps1 l1 n1) inst1 s1))
      \<and> sublist (constructor_name inst1)
          (left_value (fst (validate_v1 (Class_v1 ps1 l1 n1) inst1 s1)))
      \<and> sublist n1 (left_value (fst (validate_v1 (Class_v1 ps1 l1 n1) inst1 s1))))
   \<and> (\<not> list_ex isLeft (fst (validate_parents_v1 ps1 inst1 s1)) \<longrightarrow>
      fst (validate_v1 (Class_v1 ps1 l1 n1) inst1 s1)
        = fst (check_v1 l1 inst1 (state_after_v1 ps1 inst1 s1)))"
proof -
  note sub = sublist_prerequisites_message
  have a: "fst (validate (Class ps l n i) inst s)
        = Failure (messages (foldConjoin (fst (validate_parents ps inst s)))
                   @ [prerequisites_message (constructor_name inst) n])"
    if "isError (foldConjoin (fst (validate_parents ps inst s)))"
    using that
    by (simp only: validate_unfold isError_foldConjoin messages_foldConjoin if_True fst_conv)
  have b: "fst (validate (Class ps l n i) inst s) = fst (check l inst (state_after ps inst s))"
    if "\<not> isError (foldConjoin (fst (validate_parents ps inst s)))"
    using that by (simp only: validate_unfold isError_foldConjoin if_False)
  have c: "isLeft (fst (validate_v1 (Class_v1 ps1 l1 n1) inst1 s1))
      \<and> sublist (constructor_name inst1)
          (left_value (fst (validate_v1 (Class_v1 ps1 l1 n1) inst1 s1)))
      \<and> sublist n1 (left_value (fst (validate_v1 (Class_v1 ps1 l1 n1) inst1 s1)))"
    if "list_ex isLeft (fst (validate_parents_v1 ps1 inst1 s1))"
    using that sub [of "constructor_name inst1" n1]
    by (simp only: validate_v1_unfold if_True fst_conv isLeft.simps Either.sel
        sublist_append_right simp_thms)
  have d: "fst (validate_v1 (Class_v1 ps1 l1 n1) inst1 s1)
        = fst (check_v1 l1 inst1 (state_after_v1 ps1 inst1 s1))"
    if "\<not> list_ex isLeft (fst (validate_parents_v1 ps1 inst1 s1))"
    using that by (simp only: validate_v1_unfold if_False)
  show ?thesis using a b c d sub [of "constructor_name inst" n] by blast
qed

text \<open>
  Runs of the amended C3, with a failing and with a succeeding prerequisite.
\<close>

theorem prerequisite_failure_has_context_witness:
  "isError (foldConjoin (fst (validate_parents
       [Class [] (recording ''Eq laws'' (Failure [''reflexivity''])) ''Eq'' 0] Num [])))
   \<and> fst (validate
        (Class [Class [] (recording ''Eq laws'' (Failure [''reflexivity''])) ''Eq'' 0]
           (recording ''Addable laws'' Success) ''Addable'' 1) Num [])
       = Failure [''reflexivity'', ''Class Num fails the prerequisites to be a Addable'']
   \<and> sublist ''Num'' ''Class Num fails the prerequisites to be a Addable''
   \<and> sublist ''Addable'' ''Class Num fails the prerequisites to be a Addable''
   \<and> \<not> isError (foldConjoin (fst (validate_parents
       [Class [] (recording ''Eq laws'' Success) ''Eq'' 0] Num [])))
   \<and> fst (validate
        (Class [Class [] (recording ''Eq laws'' Success) ''Eq'' 0]
           (recording ''Addable laws'' (Failure [''commutativity''])) ''Addable'' 1) Num [])
       = Failure [''commutativity'']
   \<and> list_ex isLeft (fst (validate_parents_v1
       [Class_v1 [] (recording_v1 ''Eq laws'' (Left ''reflexivity'')) ''Eq''] Num []))
   \<and> fst (validate_v1
        (Class_v1 [Class_v1 [] (recording_v1 ''Eq laws'' (Left ''reflexivity'')) ''Eq'']
           (recording_v1 ''Addable laws'' (Right ())) ''Addable'') Num [])
       = Left (''Class Num fails the prerequisites to be a Addable''
               @ [CHR 0x0A, CHR 0x0A] @ ''reflexivity'')
   \<and> \<not> list_ex isLeft (fst (validate_parents_v1
       [Class_v1 [] (recording_v1 ''Eq laws'' (Right ())) ''Eq''] Num []))
   \<and> fst (validate_v1
        (Class_v1 [Class_v1 [] (recording_v1 ''Eq laws'' (Right ())) ''Eq'']
           (recording_v1 ''Addable laws'' (Left ''commutativity'')) ''Addable'') Num [])
       = Left ''commutativity''"
  using prerequisite_failure_has_context
    [of "[Class [] (recording ''Eq laws'' (Failure [''reflexivity''])) ''Eq'' 0]" Num "[]"
        "recording ''Addable laws'' Success" "''Addable''" 1
        "[Class_v1 [] (recording_v1 ''Eq laws'' (Left ''reflexivity'')) ''Eq'']" Num "[]"
        "recording_v1 ''Addable laws'' (Right ())" "''Addable''"]
    prerequisite_failure_has_context
    [of "[Class [] (recording ''Eq laws'' Success) ''Eq'' 0]" Num "[]"
        "recording ''Addable laws'' (Failure [''commutativity''])" "''Addable''" 1
        "[Class_v1 [] (recording_v1 ''Eq laws'' (Right ())) ''Eq'']" Num "[]"
        "recording_v1 ''Addable laws'' (Left ''commutativity'')" "''Addable''"]
  by (simp add: recording_def recording_v1_def foldConjoin_def fail_def Num_def
      state_after_def state_after_v1_def prerequisites_message_def)

section \<open>Names\<close>

lemma list_ex_map: "list_ex P xs = (True \<in> set (map P xs))"
  by (induction xs) auto

lemma parents_rename:
  assumes "\<And>p s. p \<in> set ps \<Longrightarrow>
      isError (fst (validate (rename f p) inst s)) = isError (fst (validate p inst s))
      \<and> snd (validate (rename f p) inst s) = snd (validate p inst s)"
  shows "map isError (fst (validate_parents (map (rename f) ps) inst s))
           = map isError (fst (validate_parents ps inst s))
         \<and> snd (validate_parents (map (rename f) ps) inst s) = snd (validate_parents ps inst s)"
  using assms by (induction ps arbitrary: s) (simp_all add: case_prod_beta Let_def)

lemma validate_rename:
  "isError (fst (validate (rename f c) inst s)) = isError (fst (validate c inst s))
   \<and> snd (validate (rename f c) inst s) = snd (validate c inst s)"
proof (induction c arbitrary: s)
  case (Class ps l n i)
  have par: "map isError (fst (validate_parents (map (rename f) ps) inst s))
           = map isError (fst (validate_parents ps inst s))
         \<and> snd (validate_parents (map (rename f) ps) inst s) = snd (validate_parents ps inst s)"
    by (rule parents_rename) (rule Class.IH)
  then have ex: "list_ex isError (fst (validate_parents (map (rename f) ps) inst s))
           = list_ex isError (fst (validate_parents ps inst s))"
    by (simp only: list_ex_map)
  have st: "state_after (map (rename f) ps) inst s = state_after ps inst s"
    using par by (simp only: snd_validate_parents)
  show ?case
    by (simp only: rename.simps validate_unfold ex st) simp
qed

lemma parents_rename_v1:
  assumes "\<And>p s. p \<in> set ps \<Longrightarrow>
      isLeft (fst (validate_v1 (rename_v1 f p) inst s)) = isLeft (fst (validate_v1 p inst s))
      \<and> snd (validate_v1 (rename_v1 f p) inst s) = snd (validate_v1 p inst s)"
  shows "map isLeft (fst (validate_parents_v1 (map (rename_v1 f) ps) inst s))
           = map isLeft (fst (validate_parents_v1 ps inst s))
         \<and> snd (validate_parents_v1 (map (rename_v1 f) ps) inst s)
           = snd (validate_parents_v1 ps inst s)"
  using assms by (induction ps arbitrary: s) (simp_all add: case_prod_beta Let_def)

lemma validate_rename_v1:
  "isLeft (fst (validate_v1 (rename_v1 f c) inst s)) = isLeft (fst (validate_v1 c inst s))
   \<and> snd (validate_v1 (rename_v1 f c) inst s) = snd (validate_v1 c inst s)
   \<and> (\<not> isLeft (fst (validate_v1 c inst s))
        \<longrightarrow> fst (validate_v1 (rename_v1 f c) inst s) = fst (validate_v1 c inst s))"
proof (induction c arbitrary: s)
  case (Class_v1 ps l n)
  have par: "map isLeft (fst (validate_parents_v1 (map (rename_v1 f) ps) inst s))
           = map isLeft (fst (validate_parents_v1 ps inst s))
         \<and> snd (validate_parents_v1 (map (rename_v1 f) ps) inst s)
           = snd (validate_parents_v1 ps inst s)"
    by (rule parents_rename_v1) (simp add: Class_v1.IH)
  then have ex: "list_ex isLeft (fst (validate_parents_v1 (map (rename_v1 f) ps) inst s))
           = list_ex isLeft (fst (validate_parents_v1 ps inst s))"
    by (simp only: list_ex_map)
  have st: "state_after_v1 (map (rename_v1 f) ps) inst s = state_after_v1 ps inst s"
    using par by (simp only: snd_validate_parents_v1)
  show ?case
    by (simp only: rename_v1.simps validate_v1_unfold ex st) simp
qed

text \<open>
  C8. With \<^verbatim>\<open>name\<close> omitted the constructor stores \<^verbatim>\<open>Unnamed\<close>. Names play no role
  in the outcome of a validation: replacing every name in a class and its
  prerequisites changes neither whether validation fails nor the state it leaves
  (the later version's success carries nothing; in the earlier version a \<^verbatim>\<open>Right\<close>
  is returned unchanged). Only the messages of a failure differ.
\<close>

theorem name_only_diagnostic:
  "name (fst (new_Class (ClassOptions None extends_o laws_o) idCounter)) = ''Unnamed''
   \<and> isError (fst (validate (rename f c) inst s)) = isError (fst (validate c inst s))
   \<and> snd (validate (rename f c) inst s) = snd (validate c inst s)
   \<and> name_v1 (new_Class_v1 all_empty (ClassOptions_v1 None extends_o1 laws_o1)) = ''Unnamed''
   \<and> (case fst (validate_v1 c1 inst1 s1) of
        Left m \<Rightarrow> isLeft (fst (validate_v1 (rename_v1 f1 c1) inst1 s1))
      | Right v \<Rightarrow> fst (validate_v1 (rename_v1 f1 c1) inst1 s1) = Right v)
   \<and> snd (validate_v1 (rename_v1 f1 c1) inst1 s1) = snd (validate_v1 c1 inst1 s1)"
proof -
  have v1: "(case fst (validate_v1 c1 inst1 s1) of
        Left m \<Rightarrow> isLeft (fst (validate_v1 (rename_v1 f1 c1) inst1 s1))
      | Right v \<Rightarrow> fst (validate_v1 (rename_v1 f1 c1) inst1 s1) = Right v)"
    using validate_rename_v1 [of f1 c1 inst1 s1]
    by (cases "fst (validate_v1 c1 inst1 s1)") simp_all
  show ?thesis
    using v1 validate_rename [of f c inst s] validate_rename_v1 [of f1 c1 inst1 s1]
    by (simp add: Let_def)
qed

section \<open>Identifiers\<close>

lemma ids_new_Classes:
  "c \<le> 2 ^ 53 \<Longrightarrow>
   map id_c (fst (new_Classes os c)) = map (\<lambda>k. min (c + k) (2 ^ 53)) [0..<length os]"
proof (induction os arbitrary: c)
  case Nil
  show ?case by simp
next
  case (Cons x os)
  have le: "number_succ c \<le> 2 ^ 53" using Cons.prems by (simp add: number_succ_def)
  have step: "min (number_succ c + k) (2 ^ 53) = min (c + Suc k) (2 ^ 53)" for k
    using Cons.prems by (simp add: number_succ_def)
  have "map id_c (fst (new_Classes (x # os) c))
        = c # map id_c (fst (new_Classes os (number_succ c)))"
    by (cases x) (simp add: Let_def case_prod_beta)
  also have "\<dots> = c # map (\<lambda>k. min (number_succ c + k) (2 ^ 53)) [0..<length os]"
    using Cons.IH [OF le] by simp
  also have "\<dots> = c # map (\<lambda>k. min (c + Suc k) (2 ^ 53)) [0..<length os]"
    by (simp only: step)
  also have "\<dots> = map (\<lambda>k. min (c + k) (2 ^ 53)) [0..<Suc (length os)]"
    using Cons.prems by (simp only: map_upt_Suc add_0_right min.absorb1)
  also have "Suc (length os) = length (x # os)"
    by simp
  finally show ?case .
qed

lemma counter_new_Classes:
  "c \<le> 2 ^ 53 \<Longrightarrow> snd (new_Classes os c) = min (c + length os) (2 ^ 53)"
proof (induction os arbitrary: c)
  case Nil
  then show ?case by simp
next
  case (Cons x os)
  have le: "number_succ c \<le> 2 ^ 53" using Cons.prems by (simp add: number_succ_def)
  have "snd (new_Classes (x # os) c) = snd (new_Classes os (number_succ c))"
    by (cases x) (simp add: Let_def case_prod_beta)
  also have "\<dots> = min (number_succ c + length os) (2 ^ 53)"
    by (rule Cons.IH [OF le])
  also have "\<dots> = min (c + length (x # os)) (2 ^ 53)"
    using Cons.prems by (simp add: number_succ_def)
  finally show ?case .
qed

text \<open>
  C7, as stated, fails at the limit of the counter: from the initial counter 0,
  \<open>2 ^ 53\<close> constructions leave the counter at \<open>2 ^ 53\<close>, where \<^verbatim>\<open>idCounter++\<close> no
  longer changes it, and the next two classes both get the id \<open>2 ^ 53\<close>.
\<close>

theorem id_repeats_counterexample:
  "snd (new_Classes
          (replicate (2 ^ 53) (ClassOptions None None None :: (unit, unit) ClassOptions)) 0)
     = 2 ^ 53
   \<and> new_Classes [ClassOptions (Some ''Eq'') None None :: (unit, unit) ClassOptions,
                   ClassOptions (Some ''Ord'') None None] (2 ^ 53)
     = ([Class [] (all []) ''Eq'' (2 ^ 53), Class [] (all []) ''Ord'' (2 ^ 53)], 2 ^ 53)"
proof -
  have "snd (new_Classes
          (replicate (2 ^ 53) (ClassOptions None None None :: (unit, unit) ClassOptions)) 0)
     = min (0 + length (replicate ((2::nat) ^ 53)
                          (ClassOptions None None None :: (unit, unit) ClassOptions)))
         (2 ^ 53)"
    by (rule counter_new_Classes) simp
  also have "\<dots> = 2 ^ 53"
    by (simp only: length_replicate add_0 min.idem)
  finally show ?thesis
    by (simp add: number_succ_def)
qed

text \<open>
  C7, amended. While the counter stays within \<open>2 ^ 53\<close>, the classes constructed one
  after another get the consecutive ids from the counter's value on, so their ids
  are pairwise different whatever their names, and the counter advances by one per
  construction.
\<close>

theorem ids_fresh_below_limit:
  "idCounter + length os \<le> 2 ^ 53 \<Longrightarrow>
   map id_c (fst (new_Classes os idCounter)) = [idCounter..<idCounter + length os]
   \<and> distinct (map id_c (fst (new_Classes os idCounter)))
   \<and> snd (new_Classes os idCounter) = idCounter + length os"
proof -
  assume bound: "idCounter + length os \<le> 2 ^ 53"
  then have le: "idCounter \<le> 2 ^ 53" by simp
  have "map (\<lambda>k. min (idCounter + k) (2 ^ 53)) [0..<length os]
        = map (\<lambda>k. k + idCounter) [0..<length os]"
    using bound by (intro map_cong) (simp_all add: add.commute)
  also have "\<dots> = [idCounter..<idCounter + length os]"
    by (simp add: map_add_upt add.commute)
  finally have ids: "map id_c (fst (new_Classes os idCounter)) = [idCounter..<idCounter + length os]"
    using ids_new_Classes [OF le, of os] by simp
  have "snd (new_Classes os idCounter) = idCounter + length os"
    using counter_new_Classes [OF le, of os] bound by simp
  with ids show ?thesis by simp
qed

text \<open>
  A run of the amended C7: two classes with the same name get the ids 0 and 1.
\<close>

theorem ids_fresh_below_limit_witness:
  "(0::nat) + length [ClassOptions (Some ''Eq'') None None :: (unit, unit) ClassOptions,
                      ClassOptions (Some ''Eq'') None None] \<le> 2 ^ 53
   \<and> map name (fst (new_Classes
        [ClassOptions (Some ''Eq'') None None :: (unit, unit) ClassOptions,
         ClassOptions (Some ''Eq'') None None] 0)) = [''Eq'', ''Eq'']
   \<and> map id_c (fst (new_Classes
        [ClassOptions (Some ''Eq'') None None :: (unit, unit) ClassOptions,
         ClassOptions (Some ''Eq'') None None] 0)) = [0, 1]"
  using ids_fresh_below_limit
    [of 0 "[ClassOptions (Some ''Eq'') None None :: (unit, unit) ClassOptions,
            ClassOptions (Some ''Eq'') None None]"]
  by (simp add: number_succ_def)

section \<open>The two versions\<close>

lemma list_all2_list_ex:
  "list_all2 (\<lambda>a b. P a = Q b) xs ys \<Longrightarrow> list_ex P xs = list_ex Q ys"
  by (induction xs ys rule: list_all2_induct) simp_all

text \<open>
  C9. Take a class of the earlier version and one of the later version whose
  prerequisites' results classify alike, one by one (a \<^verbatim>\<open>Left\<close> where the other
  is an error), and whose own laws classify alike. Then the earlier \<^verbatim>\<open>validate\<close>
  returns a \<^verbatim>\<open>Left\<close> exactly when the later one returns an error, and when every
  prerequisite succeeds both return exactly the result of their \<^verbatim>\<open>laws.check\<close>.
\<close>

theorem versions_agree:
  assumes "list_all2 (\<lambda>r1 r. isLeft r1 = isError r)
             (fst (validate_parents_v1 ps1 inst1 s1)) (fst (validate_parents ps inst s))"
      and "isLeft (fst (check_v1 l1 inst1 (state_after_v1 ps1 inst1 s1)))
             = isError (fst (check l inst (state_after ps inst s)))"
  shows "isLeft (fst (validate_v1 (Class_v1 ps1 l1 n1) inst1 s1))
           = isError (fst (validate (Class ps l n i) inst s))
         \<and> (\<not> list_ex isLeft (fst (validate_parents_v1 ps1 inst1 s1)) \<longrightarrow>
              validate_v1 (Class_v1 ps1 l1 n1) inst1 s1
                = check_v1 l1 inst1 (state_after_v1 ps1 inst1 s1)
              \<and> validate (Class ps l n i) inst s = check l inst (state_after ps inst s))"
proof -
  have ex: "list_ex isLeft (fst (validate_parents_v1 ps1 inst1 s1))
            = list_ex isError (fst (validate_parents ps inst s))"
    using assms(1) by (rule list_all2_list_ex)
  show ?thesis
    using assms(2) by (simp only: validate_unfold validate_v1_unfold ex) simp
qed

text \<open>
  Runs of C9: once with a failing prerequisite, once with succeeding prerequisites
  and failing own laws.
\<close>

theorem versions_agree_witness:
  "list_all2 (\<lambda>r1 r. isLeft r1 = isError r)
     (fst (validate_parents_v1
        [Class_v1 [] (recording_v1 ''Eq laws'' (Left ''reflexivity'')) ''Eq'',
         Class_v1 [] (recording_v1 ''Show laws'' (Right ())) ''Show''] Num []))
     (fst (validate_parents
        [Class [] (recording ''Eq laws'' (Failure [''reflexivity''])) ''Eq'' 0,
         Class [] (recording ''Show laws'' Success) ''Show'' 1] Num []))
   \<and> isLeft (fst (validate_v1
        (Class_v1 [Class_v1 [] (recording_v1 ''Eq laws'' (Left ''reflexivity'')) ''Eq'',
                   Class_v1 [] (recording_v1 ''Show laws'' (Right ())) ''Show'']
           (recording_v1 ''Addable laws'' (Right ())) ''Addable'') Num []))
   \<and> isError (fst (validate
        (Class [Class [] (recording ''Eq laws'' (Failure [''reflexivity''])) ''Eq'' 0,
                Class [] (recording ''Show laws'' Success) ''Show'' 1]
           (recording ''Addable laws'' Success) ''Addable'' 2) Num []))
   \<and> \<not> list_ex isLeft (fst (validate_parents_v1
        [Class_v1 [] (recording_v1 ''Show laws'' (Right ())) ''Show''] Num []))
   \<and> validate_v1
        (Class_v1 [Class_v1 [] (recording_v1 ''Show laws'' (Right ())) ''Show'']
           (recording_v1 ''Addable laws'' (Left ''commutativity'')) ''Addable'') Num []
       = (Left ''commutativity'', [''Show laws'', ''Addable laws''])
   \<and> validate
        (Class [Class [] (recording ''Show laws'' Success) ''Show'' 1]
           (recording ''Addable laws'' (Failure [''commutativity''])) ''Addable'' 2) Num []
       = (Failure [''commutativity''], [''Show laws'', ''Addable laws''])"
proof -
  have a: "list_all2 (\<lambda>r1 r. isLeft r1 = isError r)
     (fst (validate_parents_v1
        [Class_v1 [] (recording_v1 ''Eq laws'' (Left ''reflexivity'')) ''Eq'',
         Class_v1 [] (recording_v1 ''Show laws'' (Right ())) ''Show''] Num []))
     (fst (validate_parents
        [Class [] (recording ''Eq laws'' (Failure [''reflexivity''])) ''Eq'' 0,
         Class [] (recording ''Show laws'' Success) ''Show'' 1] Num []))"
    by (simp add: recording_def recording_v1_def foldConjoin_def state_after_def state_after_v1_def)
  have b: "isLeft (fst (check_v1 (recording_v1 ''Addable laws'' (Right ())) Num
              (state_after_v1
                 [Class_v1 [] (recording_v1 ''Eq laws'' (Left ''reflexivity'')) ''Eq'',
                  Class_v1 [] (recording_v1 ''Show laws'' (Right ())) ''Show''] Num [])))
         = isError (fst (check (recording ''Addable laws'' Success) Num
              (state_after
                 [Class [] (recording ''Eq laws'' (Failure [''reflexivity''])) ''Eq'' 0,
                  Class [] (recording ''Show laws'' Success) ''Show'' 1] Num [])))"
    by (simp add: recording_def recording_v1_def foldConjoin_def state_after_def state_after_v1_def)
  have c: "list_all2 (\<lambda>r1 r. isLeft r1 = isError r)
     (fst (validate_parents_v1
        [Class_v1 [] (recording_v1 ''Show laws'' (Right ())) ''Show''] Num []))
     (fst (validate_parents
        [Class [] (recording ''Show laws'' Success) ''Show'' 1] Num []))"
    by (simp add: recording_def recording_v1_def foldConjoin_def state_after_def state_after_v1_def)
  have d: "isLeft (fst (check_v1 (recording_v1 ''Addable laws'' (Left ''commutativity'')) Num
              (state_after_v1
                 [Class_v1 [] (recording_v1 ''Show laws'' (Right ())) ''Show''] Num [])))
         = isError (fst (check (recording ''Addable laws'' (Failure [''commutativity''])) Num
              (state_after
                 [Class [] (recording ''Show laws'' Success) ''Show'' 1] Num [])))"
    by (simp add: recording_def recording_v1_def foldConjoin_def state_after_def state_after_v1_def)
  show ?thesis
    using a versions_agree [OF a b, of "''Addable''" "''Addable''" 2]
      versions_agree [OF c d, of "''Addable''" "''Addable''" 2]
    by (simp add: recording_def recording_v1_def state_after_def state_after_v1_def
        foldConjoin_def)
qed

end
